theory Spec2Isabelle
  imports Main
begin

section \<open>JavaScript values and exceptions\<close>

text \<open>
  The module under study is \<^verbatim>\<open>src/lib/modules/scholar_articleParser_120201.js\<close>, which
  holds the base class \<^verbatim>\<open>ScholarArticleParser\<close> and its subclass
  \<^verbatim>\<open>ScholarArticleParser_120201\<close>. It is JavaScript, and it is embedded with the
  meaning JavaScript gives to it. An exception is a value of type \<open>error\<close> on the left
  of a sum; only the two kinds this module can raise by itself are needed.
\<close>

datatype error = ReferenceError | TypeError

type_synonym 'a result = "error + 'a"

definition bind_r :: "'a result \<Rightarrow> ('a \<Rightarrow> 'b result) \<Rightarrow> 'b result" where
  "bind_r m f = (case m of Inl e \<Rightarrow> Inl e | Inr x \<Rightarrow> f x)"

text \<open>
  Values are the primitives and plain data objects. \<open>Obj kvs\<close> lists the own enumerable
  properties of an object in enumeration order; keys are distinct and do not shadow a
  member of \<^verbatim>\<open>Object.prototype\<close>. Nodes handed out by the soup adapter are such objects.
\<close>

datatype jsval =
    Undefined
  | Null
  | Bool bool
  | Num int
  | Str string
  | Obj "(string \<times> jsval) list"

definition nullish :: "jsval \<Rightarrow> bool" where
  \<comment> \<open>\<^verbatim>\<open>v == undefined\<close>\<close>
  "nullish v = (v = Undefined \<or> v = Null)"

fun truthy :: "jsval \<Rightarrow> bool" where
  "truthy Undefined = False"
| "truthy Null = False"
| "truthy (Bool b) = b"
| "truthy (Num n) = (n \<noteq> 0)"
| "truthy (Str s) = (s \<noteq> [])"
| "truthy (Obj kvs) = True"

fun loose_eq_str :: "jsval \<Rightarrow> string \<Rightarrow> bool" where
  \<comment> \<open>\<^verbatim>\<open>v == 'lit'\<close> for the tag-name literals of the module, none of which is numeric\<close>
  "loose_eq_str (Str s) lit = (s = lit)"
| "loose_eq_str v lit = False"

definition loose_ne_str :: "jsval \<Rightarrow> string \<Rightarrow> bool" where
  \<comment> \<open>\<^verbatim>\<open>v != 'lit'\<close>\<close>
  "loose_ne_str v lit = (\<not> loose_eq_str v lit)"

subsection \<open>Identifiers without a binding, properties without a value\<close>

text \<open>
  The module declares \<^verbatim>\<open>ScholarArticle\<close>, \<^verbatim>\<open>ScholarConf\<close>, \<^verbatim>\<open>ScholarSoup\<close> and the two
  classes. It also uses the identifiers \<^verbatim>\<open>length\<close>, \<^verbatim>\<open>int\<close>, \<^verbatim>\<open>object\<close>, \<^verbatim>\<open>name\<close>,
  \<^verbatim>\<open>attrs\<close>, \<^verbatim>\<open>string\<close> and \<^verbatim>\<open>part\<close>, which it never declares and which are no
  globals of the language or of Node. Reading such an identifier throws ReferenceError;
  so does assigning to it, since a class body is strict code.
\<close>

definition unbound :: "string \<Rightarrow> 'a result" where
  "unbound x = Inl ReferenceError"

text \<open>
  Calling a property whose value is \<^verbatim>\<open>undefined\<close> throws TypeError. This is the fate of
  \<^verbatim>\<open>endWith\<close>, \<^verbatim>\<open>strip\<close> and \<^verbatim>\<open>join\<close> on a string, which \<^verbatim>\<open>String.prototype\<close> does not
  have, and of the methods declared \<^verbatim>\<open>static\<close> when they are looked up on \<^verbatim>\<open>this\<close>:
  a static method is a property of the constructor, not of the instance.
\<close>

definition not_a_function :: "string \<Rightarrow> 'a result" where
  "not_a_function m = Inl TypeError"

definition prototype_methods :: "string list" where
  "prototype_methods =
     [''parse'', ''handle_article'', ''handle_numResults'', ''_clean_article'',
      ''_parse_globals'', ''_parse_article'', ''_parse_links'', ''_path2url'',
      ''_strip_urlArg'']"

definition static_methods :: "string list" where
  "static_methods = [''_tag_hasClass'', ''_tag_resultsChecker'', ''_as_integer'']"

definition this_call :: "string \<Rightarrow> 'a result \<Rightarrow> 'a result" where
  \<comment> \<open>\<^verbatim>\<open>this.m(...)\<close>: the body runs when \<open>m\<close> is found on the prototype chain\<close>
  "this_call m body = (if m \<in> set prototype_methods then body else not_a_function m)"

section \<open>Strings\<close>

definition startsWith :: "string \<Rightarrow> string \<Rightarrow> bool" where
  "startsWith s p = (take (length p) s = p)"

fun split_on :: "char \<Rightarrow> string \<Rightarrow> string list" where
  \<comment> \<open>\<^verbatim>\<open>s.split(c)\<close> for a separator of one character\<close>
  "split_on c [] = [[]]"
| "split_on c (x # xs) =
     (if x = c then [] # split_on c xs
      else (case split_on c xs of [] \<Rightarrow> [[x]] | y # ys \<Rightarrow> (x # y) # ys))"

definition split_limit :: "char \<Rightarrow> nat \<Rightarrow> string \<Rightarrow> string list" where
  \<comment> \<open>\<^verbatim>\<open>s.split(c, n)\<close>: the second argument bounds the number of pieces returned\<close>
  "split_limit c n s = take n (split_on c s)"

definition split_noargs :: "string \<Rightarrow> string list" where
  \<comment> \<open>\<^verbatim>\<open>s.split()\<close>: without a separator the whole string is the only piece\<close>
  "split_noargs s = [s]"

fun join :: "string \<Rightarrow> string list \<Rightarrow> string" where
  "join sep [] = []"
| "join sep [x] = x"
| "join sep (x # y # ys) = x @ sep @ join sep (y # ys)"

definition digit_char :: "nat \<Rightarrow> char" where
  "digit_char d = ''0123456789'' ! d"

fun show_nat :: "nat \<Rightarrow> string" where
  "show_nat n =
     (if n < 10 then [digit_char n] else show_nat (n div 10) @ [digit_char (n mod 10)])"

definition index_keys :: "nat \<Rightarrow> string list" where
  \<comment> \<open>the keys \<^verbatim>\<open>"0"\<close>, \<^verbatim>\<open>"1"\<close>, ... that \<^verbatim>\<open>for (k in x)\<close> visits on a string or an array\<close>
  "index_keys n = map show_nat [0..<n]"

definition is_digit :: "char \<Rightarrow> bool" where
  "is_digit c = (c \<in> set ''0123456789'')"

definition index_of :: "string \<Rightarrow> nat option" where
  \<comment> \<open>the index a property key denotes, when it is a canonical decimal numeral\<close>
  "index_of k =
     (if k \<noteq> [] \<and> list_all is_digit k \<and> (hd k \<noteq> CHR ''0'' \<or> k = ''0'')
      then Some (foldl (\<lambda>a c. 10 * a + (of_char c - 48)) 0 k) else None)"

section \<open>The URL helpers\<close>

text \<open>
  \<^verbatim>\<open>
  _path2url(path) {
      if (path.startsWith('http://')) { return path }
      if (!(path.startsWith('/'))) { path = '/' + path; }
      return this.site + path;
  }
  \<close>
\<close>

definition path2url :: "string \<Rightarrow> string \<Rightarrow> string" where
  "path2url site path =
     (if startsWith path ''http://'' then path
      else let path' = (if \<not> startsWith path ''/'' then ''/'' @ path else path)
           in site @ path')"

text \<open>
  \<^verbatim>\<open>
  _strip_urlArg(url, arg) {
      let parts = url.split('?', 1);
      if (length(parts) != 2) { return url; }
      let result = [];
      for (part in parts[1].split('&')) {
          if (!(part.startsWith(arg + '='))) { result.push(part); }
      }
      return parts[0] + '?' + result.join('&');
  }
  \<close>
  \<open>parts\<close> has one element at most, \<^verbatim>\<open>length\<close> has no binding, \<^verbatim>\<open>parts[1]\<close> is
  \<^verbatim>\<open>undefined\<close>, the loop variable \<^verbatim>\<open>part\<close> has no binding and would receive the keys
  of the array.
\<close>

definition strip_urlArg :: "string \<Rightarrow> string \<Rightarrow> string result" where
  "strip_urlArg url arg =
     (let parts = split_limit (CHR ''?'') 1 url in
      bind_r (unbound ''length'') (\<lambda>n :: nat.
        if n \<noteq> 2 then Inr url
        else (case drop 1 parts of
                [] \<Rightarrow> not_a_function ''split''
              | q # _ \<Rightarrow>
                  bind_r (if index_keys (length (split_on (CHR ''&'') q)) = [] then Inr []
                          else unbound ''part'')
                    (\<lambda>res. Inr (hd parts @ ''?'' @ join ''&'' res)))))"

subsection \<open>Paths with a scheme\<close>

text \<open>
  The spec's resolve-url sets apart a path that already has a scheme. \<open>has_scheme\<close>
  follows the spec's words, not the code: a scheme is a letter, then letters, digits,
  \<^verbatim>\<open>+\<close>, \<^verbatim>\<open>-\<close> or \<^verbatim>\<open>.\<close>, then a colon, as in \<^verbatim>\<open>http:\<close>, \<^verbatim>\<open>https:\<close> or \<^verbatim>\<open>ftp:\<close>.
\<close>

definition is_alpha :: "char \<Rightarrow> bool" where
  "is_alpha c = (c \<in> set ''abcdefghijklmnopqrstuvwxyzABCDEFGHIJKLMNOPQRSTUVWXYZ'')"

definition is_scheme_char :: "char \<Rightarrow> bool" where
  "is_scheme_char c = (is_alpha c \<or> is_digit c \<or> c \<in> set ''+-.'')"

definition has_scheme :: "string \<Rightarrow> bool" where
  "has_scheme path =
     (let name = takeWhile is_scheme_char path
      in name \<noteq> [] \<and> is_alpha (hd name) \<and> startsWith (drop (length name) path) '':'')"

section \<open>Property access\<close>

fun has_own :: "jsval \<Rightarrow> string \<Rightarrow> bool result" where
  \<comment> \<open>\<^verbatim>\<open>v.hasOwnProperty(k)\<close>; a string owns \<^verbatim>\<open>length\<close> and its indices\<close>
  "has_own Undefined k = Inl TypeError"
| "has_own Null k = Inl TypeError"
| "has_own (Bool b) k = Inr False"
| "has_own (Num n) k = Inr False"
| "has_own (Str s) k =
     Inr (k = ''length'' \<or> (case index_of k of None \<Rightarrow> False | Some i \<Rightarrow> i < length s))"
| "has_own (Obj kvs) k = Inr (k \<in> set (map fst kvs))"

fun get_prop :: "jsval \<Rightarrow> string \<Rightarrow> jsval" where
  \<comment> \<open>\<^verbatim>\<open>v[k]\<close> for a value that is not \<^verbatim>\<open>undefined\<close> or \<^verbatim>\<open>null\<close> and a key that names data\<close>
  "get_prop (Str s) k =
     (if k = ''length'' then Num (int (length s))
      else (case index_of k of
              None \<Rightarrow> Undefined
            | Some i \<Rightarrow> if i < length s then Str [s ! i] else Undefined))"
| "get_prop (Obj kvs) k = (case map_of kvs k of None \<Rightarrow> Undefined | Some v \<Rightarrow> v)"
| "get_prop v k = Undefined"

fun for_in_keys :: "jsval \<Rightarrow> string list" where
  \<comment> \<open>the values \<^verbatim>\<open>for (let k in v)\<close> binds \<open>k\<close> to: property names, never the members\<close>
  "for_in_keys (Str s) = index_keys (length s)"
| "for_in_keys (Obj kvs) = map fst kvs"
| "for_in_keys v = []"

fun for_in :: "string list \<Rightarrow> (string \<Rightarrow> 's \<Rightarrow> 's result) \<Rightarrow> 's \<Rightarrow> 's result" where
  "for_in [] body s = Inr s"
| "for_in (k # ks) body s =
     (case body k s of Inl e \<Rightarrow> Inl e | Inr s' \<Rightarrow> for_in ks body s')"

fun js_startsWith :: "jsval \<Rightarrow> string \<Rightarrow> bool result" where
  \<comment> \<open>\<^verbatim>\<open>v.startsWith(p)\<close>: only a string has the method\<close>
  "js_startsWith (Str s) p = Inr (startsWith s p)"
| "js_startsWith v p = not_a_function ''startsWith''"

fun path2url_v :: "string \<Rightarrow> jsval \<Rightarrow> string result" where
  \<comment> \<open>\<^verbatim>\<open>this._path2url(v)\<close> for an argument that need not be a string\<close>
  "path2url_v site (Str p) = Inr (path2url site p)"
| "path2url_v site v = not_a_function ''startsWith''"

section \<open>The collaborators\<close>

text \<open>
  Modelled from the spec: the record of module \<^verbatim>\<open>scholar_article\<close> is not among the
  sources. The spec gives its fields: title, url, url_pdf, year, num_citations,
  url_citations, num_versions and url_versions are optional, cluster_id is an ordered
  sequence, and a record is created fresh for each result container.
\<close>

record article =
  title :: jsval
  url :: jsval
  url_pdf :: jsval
  year :: jsval
  num_citations :: jsval
  url_citations :: jsval
  cluster_id :: "jsval list"
  num_versions :: jsval
  url_versions :: jsval

definition ScholarArticle :: article where
  "ScholarArticle =
     \<lparr>title = Undefined, url = Undefined, url_pdf = Undefined, year = Undefined,
      num_citations = Undefined, url_citations = Undefined, cluster_id = [],
      num_versions = Undefined, url_versions = Undefined\<rparr>"

text \<open>
  Modelled from the spec: the soup adapter of module \<^verbatim>\<open>scholar_soup\<close> is not among the
  sources. It parses HTML into a tree, finds the first node with given attributes,
  finds all nodes for a predicate, and extracts the text fragments below a node.
\<close>

record adapter =
  make_soup :: "string \<Rightarrow> jsval"
  soup_find :: "jsval \<Rightarrow> jsval"
  soup_findAll :: "jsval \<Rightarrow> jsval \<Rightarrow> jsval"
  tag_strings :: "jsval \<Rightarrow> string list"

section \<open>The parser\<close>

text \<open>
  \<^verbatim>\<open>
  constructor(site = undefined) {
      this.soup = undefined;
      this.article = undefined;
      this.site = site || ScholarConf.SCHOLAR_SITE;
      this.year = new RegExp('\b(?:20|19)\d{2}\b');
  }
  \<close>
  In a string literal \<^verbatim>\<open>\b\<close> is the backspace character and \<^verbatim>\<open>\d\<close> is the letter d.
  The instance has no property \<^verbatim>\<open>year_re\<close>. The last two fields of the record are no
  properties of the instance: they list, in order, the arguments the callbacks
  \<^verbatim>\<open>handle_article\<close> and \<^verbatim>\<open>handle_numResults\<close> were invoked with.
\<close>

record parser =
  soup :: jsval
  article :: "article option"
  site :: string
  year :: string
  handled_articles :: "article list"
  handled_numResults :: "jsval list"

definition year_source :: string where
  "year_source = [CHR 0x08] @ ''(?:20|19)d{2}'' @ [CHR 0x08]"

definition ScholarArticleParser :: "string option \<Rightarrow> string \<Rightarrow> parser" where
  "ScholarArticleParser site_arg SCHOLAR_SITE =
     \<lparr>soup = Undefined, article = None,
      site = (case site_arg of
                None \<Rightarrow> SCHOLAR_SITE
              | Some s \<Rightarrow> if s \<noteq> [] then s else SCHOLAR_SITE),
      year = year_source, handled_articles = [], handled_numResults = []\<rparr>"

text \<open>
  \<^verbatim>\<open>class ScholarArticleParser_120201 extends ScholarArticleParser { constructor() {} ... }\<close>
  A derived constructor that returns without calling \<^verbatim>\<open>super()\<close> throws ReferenceError.
\<close>

definition ScholarArticleParser_120201 :: "parser result" where
  "ScholarArticleParser_120201 = Inl ReferenceError"

definition this_year_re :: jsval where
  \<comment> \<open>\<^verbatim>\<open>this.year_re\<close>: the constructor stores the pattern under \<^verbatim>\<open>year\<close>\<close>
  "this_year_re = Undefined"

definition handle_article :: "article \<Rightarrow> parser \<Rightarrow> parser" where
  "handle_article a this = this\<lparr>handled_articles := handled_articles this @ [a]\<rparr>"

definition handle_numResults :: "jsval \<Rightarrow> parser \<Rightarrow> parser" where
  "handle_numResults n this = this\<lparr>handled_numResults := handled_numResults this @ [n]\<rparr>"

definition set_field :: "(article \<Rightarrow> article) \<Rightarrow> parser \<Rightarrow> parser result" where
  \<comment> \<open>\<^verbatim>\<open>this.article[f] = v\<close>\<close>
  "set_field upd this =
     (case article this of
        None \<Rightarrow> Inl TypeError
      | Some a \<Rightarrow> Inr (this\<lparr>article := Some (upd a)\<rparr>))"

subsection \<open>Static helpers\<close>

text \<open>
  \<^verbatim>\<open>
  static _as_integer(obj) {
      try { return int(obj); } catch (SyntaxError) { return undefined; }
  }
  \<close>
  The catch clause binds the exception to a variable named \<^verbatim>\<open>SyntaxError\<close>, so it
  handles every exception, the ReferenceError of \<^verbatim>\<open>int\<close> included.
\<close>

definition as_integer :: "jsval \<Rightarrow> jsval" where
  "as_integer obj = (case unbound ''int'' of Inl e \<Rightarrow> Undefined | Inr n \<Rightarrow> n)"

text \<open>
  \<^verbatim>\<open>
  static _tag_hasClass(tag, klass) {
      let result = tag['class'] || [];
      if (typeof(result) != object) { result = result.split(); }
      return klass in result;
  }
  \<close>
  The comparison reads the identifier \<^verbatim>\<open>object\<close>; nothing after it is reached.
\<close>

definition tag_hasClass :: "jsval \<Rightarrow> string \<Rightarrow> bool result" where
  "tag_hasClass tag klass = (if nullish tag then Inl TypeError else unbound ''object'')"

text \<open>
  \<^verbatim>\<open>
  static _tag_resultsChecker(tag) {
      return tag.name == 'div' && ScholarArticleParser._tag_hasClass(tag, 'gs_r');
  }
  \<close>
  Here the static helper is reached through the class, so the call itself succeeds.
\<close>

definition tag_resultsChecker :: "jsval \<Rightarrow> bool result" where
  "tag_resultsChecker tag =
     (if nullish tag then Inl TypeError
      else if loose_eq_str (get_prop tag ''name'') ''div'' then tag_hasClass tag ''gs_r''
      else Inr False)"

subsection \<open>Link parsing\<close>

text \<open>
  \<^verbatim>\<open>
  if (tag['href'].startsWith('/scholar?cites')) {
      if (tag.hasOwnProperty('string') && tag['string'].startsWith('Cited by')) {
          this.article['num_citations'] = this._as_integer(tag['string'].split()[-1]);
      }
      this.article['url_citations'] = this._strip_urlArg('num', this._path2url(tag['href']));
      let args = this.article['url_citations'].split('?', 1)[1]
      for (let arg in args.split('&')) {
          if (arg.startsWith('cites=')) {
              for (let i = 6; i < arg.length; ++i) {
                  this.article['cluster_id'].push(arg[i]);
              }
          }
      }
  }
  \<close>
  An array has no property \<^verbatim>\<open>-1\<close>, so the argument of \<^verbatim>\<open>_as_integer\<close> is \<^verbatim>\<open>undefined\<close>.
  \<^verbatim>\<open>_strip_urlArg\<close> receives the name where it expects the url and the url where it
  expects the name. \<^verbatim>\<open>args\<close> is the second element of an array of one element.
\<close>

definition cites_branch :: "jsval \<Rightarrow> parser \<Rightarrow> parser result" where
  "cites_branch tag this =
     bind_r (has_own tag ''string'') (\<lambda>own.
     bind_r (if own then js_startsWith (get_prop tag ''string'') ''Cited by'' else Inr False) (\<lambda>cited.
     bind_r (if cited
             then bind_r (this_call ''_as_integer'' (Inr (as_integer Undefined)))
                    (\<lambda>n. set_field (\<lambda>a. a\<lparr>num_citations := n\<rparr>) this)
             else Inr this) (\<lambda>this1.
     bind_r (path2url_v (site this1) (get_prop tag ''href'')) (\<lambda>u.
     bind_r (strip_urlArg ''num'' u) (\<lambda>stripped.
     bind_r (set_field (\<lambda>a. a\<lparr>url_citations := Str stripped\<rparr>) this1) (\<lambda>this2.
     (case drop 1 (split_limit (CHR ''?'') 1 stripped) of
        [] \<Rightarrow> not_a_function ''split''
      | args # _ \<Rightarrow>
          for_in (index_keys (length (split_on (CHR ''&'') args)))
            (\<lambda>arg. if startsWith arg ''cites=''
                   then set_field
                          (\<lambda>a. a\<lparr>cluster_id := cluster_id a @ map (\<lambda>c. Str [c]) (drop 6 arg)\<rparr>)
                   else Inr)
            this2)))))))"

text \<open>
  \<^verbatim>\<open>
  if (tag['href'].startsWith('/scholar?cluster')) {
      if (tag.hasOwnProperty('string') && tag['string'].startsWith('All ')) {
          this.article['num_versions'] = this._as_integer(tag['string'].split()[1]);
      }
      this.article['url_versions'] = this._strip_urlArg('num', this._path2url(tag['href']));
  }
  \<close>
\<close>

definition cluster_branch :: "jsval \<Rightarrow> parser \<Rightarrow> parser result" where
  "cluster_branch tag this =
     bind_r (has_own tag ''string'') (\<lambda>own.
     bind_r (if own then js_startsWith (get_prop tag ''string'') ''All '' else Inr False) (\<lambda>all.
     bind_r (if all
             then bind_r (this_call ''_as_integer'' (Inr (as_integer Undefined)))
                    (\<lambda>n. set_field (\<lambda>a. a\<lparr>num_versions := n\<rparr>) this)
             else Inr this) (\<lambda>this1.
     bind_r (path2url_v (site this1) (get_prop tag ''href'')) (\<lambda>u.
     bind_r (strip_urlArg ''num'' u) (\<lambda>stripped.
     set_field (\<lambda>a. a\<lparr>url_versions := Str stripped\<rparr>) this1)))))"

text \<open>
  The body of the loop of \<^verbatim>\<open>_parse_links\<close>, for one value of the loop variable:
  \<^verbatim>\<open>
  if (!tag.hasOwnProperty('name')) { continue; }
  if (tag['name'] != 'a' || tag['href'] == undefined) { continue; }
  if (tag['href'].startsWith('/scholar?cites')) { ... }
  if (tag['href'].startsWith('/scholar?cluster')) { ... }
  \<close>
\<close>

definition parse_links_tag :: "jsval \<Rightarrow> parser \<Rightarrow> parser result" where
  "parse_links_tag tag this =
     bind_r (has_own tag ''name'') (\<lambda>own.
     if \<not> own then Inr this
     else if loose_ne_str (get_prop tag ''name'') ''a'' \<or> nullish (get_prop tag ''href'')
     then Inr this
     else
       bind_r (js_startsWith (get_prop tag ''href'') ''/scholar?cites'') (\<lambda>cites.
       bind_r (if cites then cites_branch tag this else Inr this) (\<lambda>this1.
       bind_r (js_startsWith (get_prop tag ''href'') ''/scholar?cluster'') (\<lambda>cluster.
       if cluster then cluster_branch tag this1 else Inr this1))))"

text \<open>
  \<^verbatim>\<open>_parse_links(span) { for (let tag in span) { ... } }\<close>: the loop variable takes the
  property names of \<open>span\<close>, which are strings.
\<close>

definition parse_links :: "jsval \<Rightarrow> parser \<Rightarrow> parser result" where
  "parse_links span this = for_in (for_in_keys span) (\<lambda>tag. parse_links_tag (Str tag)) this"

subsection \<open>Container extraction, base layout\<close>

text \<open>
  \<^verbatim>\<open>
  this.article['title'] = tag['h3', 'a'].findAll(string = true).join('');
  this.article['url'] = this._path2url(tag['h3', 'a', 'href'])
  if (this.article['url'].endWith('.pdf')) {
      this.article['url_pdf'] = this.article['url'];
  }
  \<close>
  The comma in a subscript is the comma operator: \<^verbatim>\<open>tag['h3', 'a']\<close> is \<^verbatim>\<open>tag['a']\<close>
  and \<^verbatim>\<open>tag['h3', 'a', 'href']\<close> is \<^verbatim>\<open>tag['href']\<close>. The argument \<^verbatim>\<open>string = true\<close>
  assigns to an identifier without a binding. A string has no method \<^verbatim>\<open>endWith\<close>.
\<close>

definition title_link :: "adapter \<Rightarrow> jsval \<Rightarrow> parser \<Rightarrow> parser result" where
  "title_link ad tag this =
     bind_r (unbound ''string'') (\<lambda>_ :: unit.
     bind_r (set_field (\<lambda>a. a\<lparr>title := Str (concat (tag_strings ad (get_prop tag ''a'')))\<rparr>) this)
       (\<lambda>this1.
     bind_r (path2url_v (site this1) (get_prop tag ''href'')) (\<lambda>u.
     bind_r (set_field (\<lambda>a. a\<lparr>url := Str u\<rparr>) this1) (\<lambda>this2.
     bind_r (not_a_function ''endWith'') (\<lambda>pdf :: bool.
     if pdf then set_field (\<lambda>a. a\<lparr>url_pdf := Str u\<rparr>) this2 else Inr this2)))))"

text \<open>
  The body of the inner loop, over the property names of a \<^verbatim>\<open>font\<close> tag:
  \<^verbatim>\<open>
  if (!(tag2.hasOwnProperty('name'))) { continue; }
  if (tag2['name'] == 'span' && this._tag_hasClass(tag2, 'gs_f1')) { this._parse_links(tag2); }
  \<close>
\<close>

definition font_tag :: "jsval \<Rightarrow> parser \<Rightarrow> parser result" where
  "font_tag tag2 this =
     bind_r (has_own tag2 ''name'') (\<lambda>own.
     if \<not> own then Inr this
     else if loose_eq_str (get_prop tag2 ''name'') ''span''
     then bind_r (this_call ''_tag_hasClass'' (tag_hasClass tag2 ''gs_f1'')) (\<lambda>c.
            if c then parse_links tag2 this else Inr this)
     else Inr this)"

text \<open>
  The body of the loop of the base \<^verbatim>\<open>_parse_article\<close>:
  \<^verbatim>\<open>
  if (!tag.hasOwnProperty('name')) { continue; }
  if (tag['name'] == 'div' && this._tag_hasClass(tag, 'gs_rt') && tag['h3'] && tag['h3', 'a']) {
      ...
  }
  if (tag['name'] == 'font') { for (let tag2 in tag) { ... } }
  \<close>
\<close>

definition parse_article_tag :: "adapter \<Rightarrow> jsval \<Rightarrow> parser \<Rightarrow> parser result" where
  "parse_article_tag ad tag this =
     bind_r (has_own tag ''name'') (\<lambda>own.
     if \<not> own then Inr this
     else
       bind_r (if loose_eq_str (get_prop tag ''name'') ''div''
               then bind_r (this_call ''_tag_hasClass'' (tag_hasClass tag ''gs_rt'')) (\<lambda>c.
                      if c \<and> truthy (get_prop tag ''h3'') \<and> truthy (get_prop tag ''a'')
                      then title_link ad tag this else Inr this)
               else Inr this) (\<lambda>this1.
       if loose_eq_str (get_prop tag ''name'') ''font''
       then for_in (for_in_keys tag) (\<lambda>tag2. font_tag (Str tag2)) this1
       else Inr this1))"

text \<open>
  \<^verbatim>\<open>_parse_article(div) { this.article = ScholarArticle(); for (let tag in div) { ... } }\<close>
\<close>

definition parse_article :: "adapter \<Rightarrow> jsval \<Rightarrow> parser \<Rightarrow> parser result" where
  "parse_article ad div_node this =
     for_in (for_in_keys div_node) (\<lambda>tag. parse_article_tag ad (Str tag))
       (this\<lparr>article := Some ScholarArticle\<rparr>)"

subsection \<open>Container extraction, layout 120201\<close>

text \<open>
  \<^verbatim>\<open>
  this.article['title'] = tag['a'].findAll(string = true).join('')
  this.article['title'] = this.article['title'].join('');
  this.article['url'] = this._path2url(tag['a', 'href']);
  if (this.article['url'].endWith('.pdf')) {
      this.article['url_pdf'] = this.article['url'];
  }
  \<close>
\<close>

definition title_link_120201 :: "adapter \<Rightarrow> jsval \<Rightarrow> parser \<Rightarrow> parser result" where
  "title_link_120201 ad tag this =
     bind_r (unbound ''string'') (\<lambda>_ :: unit.
     bind_r (set_field (\<lambda>a. a\<lparr>title := Str (concat (tag_strings ad (get_prop tag ''a'')))\<rparr>) this)
       (\<lambda>this1.
     bind_r (not_a_function ''join'') (\<lambda>joined.
     bind_r (set_field (\<lambda>a. a\<lparr>title := Str joined\<rparr>) this1) (\<lambda>this2.
     bind_r (path2url_v (site this2) (get_prop tag ''href'')) (\<lambda>u.
     bind_r (set_field (\<lambda>a. a\<lparr>url := Str u\<rparr>) this2) (\<lambda>this3.
     bind_r (not_a_function ''endWith'') (\<lambda>pdf :: bool.
     if pdf then set_field (\<lambda>a. a\<lparr>url_pdf := Str u\<rparr>) this3 else Inr this3)))))))"

text \<open>
  \<^verbatim>\<open>
  let year = this.year_re.findAll(tag.text);
  this.article['year'] = (year.length > 0) ? year[0] : undefined;
  \<close>
  \<^verbatim>\<open>this.year_re\<close> is \<^verbatim>\<open>undefined\<close>, and a RegExp has no method \<^verbatim>\<open>findAll\<close>.
\<close>

definition year_scan :: "jsval \<Rightarrow> parser \<Rightarrow> parser result" where
  "year_scan tag this =
     bind_r (if nullish this_year_re then Inl TypeError else not_a_function ''findAll'')
       (\<lambda>found :: jsval list.
          set_field (\<lambda>a. a\<lparr>article.year := (if length found > 0 then hd found else Undefined)\<rparr>)
            this)"

text \<open>
  The body of the loop of \<^verbatim>\<open>ScholarArticleParser_120201._parse_article\<close>:
  \<^verbatim>\<open>
  if (!(tag.hasOwnProperty('name'))) { continue; }
  if (tag['name'] == 'h3' && this._tag_hasClass(tag, 'gs_rt') && tag['a']) { ... }
  if (tag['name'] == 'div' && this._tag_hasClass(tag, 'gs_a')) { ... }
  if (tag['name'] == 'div' && this._tag_hasClass(tag, 'gs_f1')) { this._parse_links(tag); }
  \<close>
\<close>

definition parse_article_tag_120201 :: "adapter \<Rightarrow> jsval \<Rightarrow> parser \<Rightarrow> parser result" where
  "parse_article_tag_120201 ad tag this =
     bind_r (has_own tag ''name'') (\<lambda>own.
     if \<not> own then Inr this
     else
       bind_r (if loose_eq_str (get_prop tag ''name'') ''h3''
               then bind_r (this_call ''_tag_hasClass'' (tag_hasClass tag ''gs_rt'')) (\<lambda>c.
                      if c \<and> truthy (get_prop tag ''a'')
                      then title_link_120201 ad tag this else Inr this)
               else Inr this) (\<lambda>this1.
       bind_r (if loose_eq_str (get_prop tag ''name'') ''div''
               then bind_r (this_call ''_tag_hasClass'' (tag_hasClass tag ''gs_a'')) (\<lambda>c.
                      if c then year_scan tag this1 else Inr this1)
               else Inr this1) (\<lambda>this2.
       if loose_eq_str (get_prop tag ''name'') ''div''
       then bind_r (this_call ''_tag_hasClass'' (tag_hasClass tag ''gs_f1'')) (\<lambda>c.
              if c then parse_links tag this2 else Inr this2)
       else Inr this2)))"

definition parse_article_120201 :: "adapter \<Rightarrow> jsval \<Rightarrow> parser \<Rightarrow> parser result" where
  "parse_article_120201 ad div_node this =
     for_in (for_in_keys div_node) (\<lambda>tag. parse_article_tag_120201 ad (Str tag))
       (this\<lparr>article := Some ScholarArticle\<rparr>)"

subsection \<open>Cleanup, global statistics and the page\<close>

text \<open>
  \<^verbatim>\<open>
  _clean_article() {
      if (this.article['title']) { this.article['title'] = this.article['title'].strip(); }
  }
  \<close>
  No value has a method \<^verbatim>\<open>strip\<close>.
\<close>

definition clean_article :: "parser \<Rightarrow> parser result" where
  "clean_article this =
     (case article this of
        None \<Rightarrow> Inl TypeError
      | Some a \<Rightarrow>
          if truthy (title a)
          then bind_r (not_a_function ''strip'')
                 (\<lambda>stripped. set_field (\<lambda>a. a\<lparr>title := Str stripped\<rparr>) this)
          else Inr this)"

text \<open>
  The block under \<^verbatim>\<open>try\<close> in \<^verbatim>\<open>_parse_globals\<close>:
  \<^verbatim>\<open>
  let numResults = raw_text[0].split()[1];
  numResults = numResults.split(',', '')
  numResults = int(numResults);
  this.handle_numResults(numResults);
  \<close>
  \<^verbatim>\<open>raw_text[0].split()\<close> has one element, so \<^verbatim>\<open>numResults\<close> is \<^verbatim>\<open>undefined\<close>.
\<close>

definition try_numResults :: "string \<Rightarrow> parser \<Rightarrow> parser result" where
  "try_numResults text0 this =
     (case drop 1 (split_noargs text0) of
        [] \<Rightarrow> not_a_function ''split''
      | token # _ \<Rightarrow> bind_r (unbound ''int'') (\<lambda>n. Inr (handle_numResults n this)))"

text \<open>
  \<^verbatim>\<open>
  _parse_globals() {
      let tag = this.soup.find(name = 'div', attrs = { 'id': 'gs_ab_md' });
      if (tag != undefined) {
          let raw_text = tag.findAll(string = true);
          if (raw_text != undefined && raw_text.length > 0) {
              try { ... } catch (e) {
                  if (e instanceof SyntaxError) { return {}; }
                  else if (e instanceof RangeError) { return {}; }
              }
          }
      }
  }
  \<close>
  The arguments of \<^verbatim>\<open>find\<close> and \<^verbatim>\<open>findAll\<close> assign to identifiers without a binding,
  outside the \<^verbatim>\<open>try\<close>. The handler ends normally for every exception.
\<close>

definition parse_globals :: "adapter \<Rightarrow> parser \<Rightarrow> parser result" where
  "parse_globals ad this =
     (if nullish (soup this) then Inl TypeError
      else
        bind_r (unbound ''name'') (\<lambda>_ :: unit.
        bind_r (unbound ''attrs'') (\<lambda>_ :: unit.
        let tag = soup_find ad (soup this) in
        if nullish tag then Inr this
        else
          bind_r (unbound ''string'') (\<lambda>_ :: unit.
          let raw_text = tag_strings ad tag in
          if length raw_text > 0
          then (case try_numResults (hd raw_text) this of
                  Inl e \<Rightarrow> Inr this
                | Inr this' \<Rightarrow> Inr this')
          else Inr this))))"

datatype layout = Base | Layout_120201

text \<open>
  \<^verbatim>\<open>
  parse(html) {
      this.soup = ScholarSoup.make_soup(html);
      this._parse_globals();
      for (let div in this.soup.findAll(this._tag_resultsChecker)) {
          this._parse_article(div);
          this._clean_article();
          if (this.article['title']) { this.handle_article(this.article); }
      }
  }
  \<close>
  \<^verbatim>\<open>this._tag_resultsChecker\<close> is \<^verbatim>\<open>undefined\<close>, the method being static. The loop
  variable takes the property names of what \<^verbatim>\<open>findAll\<close> returns.
\<close>

definition parse_result :: "layout \<Rightarrow> adapter \<Rightarrow> string \<Rightarrow> parser \<Rightarrow> parser result" where
  \<comment> \<open>the body of the loop of \<^verbatim>\<open>parse\<close>\<close>
  "parse_result cls ad div_node this =
     bind_r (case cls of
               Base \<Rightarrow> parse_article ad (Str div_node) this
             | Layout_120201 \<Rightarrow> parse_article_120201 ad (Str div_node) this) (\<lambda>this1.
     bind_r (clean_article this1) (\<lambda>this2.
     (case article this2 of
        None \<Rightarrow> Inl TypeError
      | Some a \<Rightarrow> if truthy (title a) then Inr (handle_article a this2) else Inr this2)))"

definition parse_results :: "layout \<Rightarrow> adapter \<Rightarrow> parser \<Rightarrow> parser result" where
  \<comment> \<open>the loop of \<^verbatim>\<open>parse\<close>\<close>
  "parse_results cls ad this =
     (if nullish (soup this) then Inl TypeError
      else for_in (for_in_keys (soup_findAll ad (soup this) Undefined)) (parse_result cls ad) this)"

definition parse :: "layout \<Rightarrow> adapter \<Rightarrow> string \<Rightarrow> parser \<Rightarrow> parser result" where
  "parse cls ad html this =
     bind_r (parse_globals ad (this\<lparr>soup := make_soup ad html\<rparr>)) (parse_results cls ad)"

section \<open>A sample page\<close>

text \<open>
  One results page as the adapter could hand it out: a statistics node and one result
  container that holds a title in either layout, a byline and a links footer. Each node
  carries every property the parser reads from it; children sit under their indices,
  which come first in enumeration order.
\<close>

definition cited_anchor :: jsval where
  "cited_anchor =
     Obj [(''name'', Str ''a''), (''href'', Str ''/scholar?cites=12345&num=20''),
          (''string'', Str ''Cited by 42'')]"

definition links_div :: jsval where
  "links_div = Obj [(''0'', cited_anchor), (''name'', Str ''div''), (''class'', Str ''gs_f1'')]"

definition cites_anchor :: jsval where
  "cites_anchor = Obj [(''name'', Str ''a''), (''href'', Str ''/scholar?cites=777'')]"

definition cites_div :: jsval where
  "cites_div = Obj [(''0'', cites_anchor), (''name'', Str ''div''), (''class'', Str ''gs_f1'')]"

definition pdf_link :: jsval where
  "pdf_link = Obj [(''name'', Str ''a''), (''href'', Str ''/paper.pdf'')]"

definition title_div :: jsval where
  "title_div =
     Obj [(''name'', Str ''div''), (''class'', Str ''gs_rt''), (''h3'', Obj [(''a'', pdf_link)]),
          (''a'', pdf_link), (''href'', Str ''/paper.pdf'')]"

definition title_h3 :: jsval where
  "title_h3 =
     Obj [(''name'', Str ''h3''), (''class'', Str ''gs_rt''), (''a'', pdf_link),
          (''href'', Str ''/paper.pdf'')]"

definition byline_div :: jsval where
  "byline_div =
     Obj [(''name'', Str ''div''), (''class'', Str ''gs_a''),
          (''text'', Str ''J Smith, A Jones - Journal of X, 2019 - publisher.com'')]"

definition container :: jsval where
  "container =
     Obj [(''0'', title_div), (''1'', title_h3), (''2'', byline_div), (''3'', links_div),
          (''name'', Str ''div''), (''class'', Str ''gs_r'')]"

definition untitled_container :: jsval where
  "untitled_container =
     Obj [(''0'', byline_div), (''name'', Str ''div''), (''class'', Str ''gs_r'')]"

definition stats_div :: jsval where
  "stats_div = Obj [(''name'', Str ''div''), (''id'', Str ''gs_ab_md'')]"

definition page :: jsval where
  "page =
     Obj [(''0'', stats_div), (''1'', container), (''2'', untitled_container),
          (''name'', Str ''[document]'')]"

definition page_adapter :: adapter where
  "page_adapter =
     \<lparr>make_soup = (\<lambda>html. page),
      soup_find = (\<lambda>soup. stats_div),
      soup_findAll = (\<lambda>soup checker. Obj [(''0'', container), (''1'', untitled_container)]),
      tag_strings = (\<lambda>tag. if tag = stats_div then [''About 1,234 results (0.05 sec)'']
                            else if tag = pdf_link then [''Big '', ''Data''] else [])\<rparr>"

definition sample_parser :: parser where
  "sample_parser =
     (ScholarArticleParser None ''https://scholar.google.com'')\<lparr>article := Some ScholarArticle\<rparr>"

section \<open>Properties of the URL helpers\<close>

lemma startsWith_append:
  assumes "startsWith p q"
  shows "startsWith (p @ r) q"
proof -
  from assms have e: "take (length q) p = q"
    by (simp add: startsWith_def)
  have "length (take (length q) p) \<le> length p"
    by simp
  with e have "length q \<le> length p"
    by simp
  with e show ?thesis
    by (simp add: startsWith_def)
qed

lemma path2url_absolute: "startsWith path ''http://'' \<Longrightarrow> path2url base path = path"
  by (simp add: path2url_def)

lemma split_on_nonempty: "split_on c s \<noteq> []"
  by (induction s) (auto split: list.splits)

lemma split_limit_one: "length (split_limit c 1 u) = 1"
  using split_on_nonempty [of c u] by (cases "split_on c u") (auto simp: split_limit_def)

text \<open>
  C9. \<^verbatim>\<open>_path2url\<close> is idempotent when the configured site begins with \<^verbatim>\<open>http://\<close>:
  resolving a resolved path gives the same string.
\<close>

theorem path2url_idempotent:
  assumes "startsWith base ''http://''"
  shows "path2url base (path2url base path) = path2url base path"
proof (cases "startsWith path ''http://''")
  case True
  then show ?thesis by (simp add: path2url_def)
next
  case False
  then obtain p where r: "path2url base path = base @ p"
    by (auto simp: path2url_def Let_def)
  have "startsWith (base @ p) ''http://''"
    using assms by (rule startsWith_append)
  then show ?thesis
    unfolding r by (rule path2url_absolute)
qed

theorem path2url_idempotent_witness:
  "startsWith ''http://scholar.google.com'' ''http://''
   \<and> path2url ''http://scholar.google.com'' (path2url ''http://scholar.google.com'' ''scholar?q=x'')
     = ''http://scholar.google.com/scholar?q=x''"
proof -
  have h: "startsWith ''http://scholar.google.com'' ''http://''"
    by (simp add: startsWith_def)
  have "path2url ''http://scholar.google.com'' ''scholar?q=x''
        = ''http://scholar.google.com/scholar?q=x''"
    by (simp add: path2url_def startsWith_def)
  with h path2url_idempotent [OF h, of "''scholar?q=x''"] show ?thesis by simp
qed

lemma http_has_scheme:
  assumes "startsWith path ''http://''"
  shows "has_scheme path"
proof -
  from assms have "take (length ''http://'') path = ''http://''"
    unfolding startsWith_def .
  then have "path = ''http://'' @ drop (length ''http://'') path"
    by (metis append_take_drop_id)
  then obtain rest where p: "path = ''http://'' @ rest" ..
  show ?thesis
    unfolding p
    by (simp add: has_scheme_def is_scheme_char_def is_alpha_def is_digit_def startsWith_def)
qed

text \<open>
  A path with another scheme than \<^verbatim>\<open>http\<close> does not pass the first test of
  \<^verbatim>\<open>_path2url\<close>, whose comment reads "returns full URL in case path isn't one": the site
  is put in front of it.
\<close>

lemma path2url_https:
  "has_scheme ''https://other.com/x''
   \<and> path2url ''https://example.com'' ''https://other.com/x''
       = ''https://example.com/https://other.com/x''"
  by (simp add: path2url_def startsWith_def has_scheme_def is_scheme_char_def is_alpha_def
      is_digit_def)

text \<open>
  C4, as amended. \<^verbatim>\<open>_path2url\<close> returns a path that begins with \<^verbatim>\<open>http://\<close> unchanged.
  For a path without a scheme it prepends the site, after putting a \<^verbatim>\<open>/\<close> in front of a
  path that does not begin with one; a path that begins with \<^verbatim>\<open>/\<close> is kept as it is. The
  two examples of the claim hold. Nothing is stated about a path with another scheme.
\<close>

theorem path2url_resolves:
  "(startsWith path ''http://'' \<longrightarrow> path2url base path = path)
   \<and> (\<not> has_scheme path \<and> startsWith path ''/'' \<longrightarrow> path2url base path = base @ path)
   \<and> (\<not> has_scheme path \<and> \<not> startsWith path ''/''
        \<longrightarrow> path2url base path = base @ ''/'' @ path)
   \<and> path2url ''https://example.com'' ''http://other.com/x'' = ''http://other.com/x''
   \<and> path2url ''https://example.com'' ''path'' = ''https://example.com/path''"
proof -
  have no_http: "\<not> has_scheme path \<Longrightarrow> \<not> startsWith path ''http://''"
    using http_has_scheme by blast
  have ex1: "path2url ''https://example.com'' ''http://other.com/x'' = ''http://other.com/x''"
    by (simp add: path2url_def startsWith_def)
  have ex2: "path2url ''https://example.com'' ''path'' = ''https://example.com/path''"
    by (simp add: path2url_def startsWith_def)
  show ?thesis
    using no_http ex1 ex2 by (auto simp: path2url_def)
qed

theorem path2url_resolves_witness:
  "startsWith ''http://a.org/b'' ''http://''
   \<and> path2url ''https://example.com'' ''http://a.org/b'' = ''http://a.org/b''
   \<and> \<not> has_scheme ''/scholar?q=x'' \<and> startsWith ''/scholar?q=x'' ''/''
   \<and> path2url ''https://example.com'' ''/scholar?q=x'' = ''https://example.com/scholar?q=x''
   \<and> \<not> has_scheme ''citations'' \<and> \<not> startsWith ''citations'' ''/''
   \<and> path2url ''https://example.com'' ''citations'' = ''https://example.com/citations''"
  using path2url_resolves [of "''http://a.org/b''" "''https://example.com''"]
    path2url_resolves [of "''/scholar?q=x''" "''https://example.com''"]
    path2url_resolves [of "''citations''" "''https://example.com''"]
  by (simp add: startsWith_def has_scheme_def is_scheme_char_def is_alpha_def is_digit_def)

text \<open>
  C4, as stated, fails: a path without a scheme that begins with two slashes keeps both, so
  the result does not have exactly one \<^verbatim>\<open>/\<close> after the site.
\<close>

theorem path2url_slashes_counterexample:
  "\<not> has_scheme ''//x''
   \<and> path2url ''https://example.com'' ''//x'' = ''https://example.com//x''"
  by (simp add: path2url_def startsWith_def has_scheme_def is_scheme_char_def is_alpha_def)

text \<open>
  C3. At the example of the claim \<^verbatim>\<open>_strip_urlArg\<close> throws ReferenceError, on the call
  of \<^verbatim>\<open>length\<close>; the split that precedes it has kept the part before the first
  \<^verbatim>\<open>?\<close> only.
\<close>

theorem strip_urlArg_example:
  "strip_urlArg ''https://x/y?num=5&cites=9999'' ''num'' = Inl ReferenceError
   \<and> split_limit (CHR ''?'') 1 ''https://x/y?num=5&cites=9999'' = [''https://x/y'']"
  by (simp add: strip_urlArg_def split_limit_def bind_r_def unbound_def)

section \<open>Properties of the loops\<close>

lemma index_of_name: "index_of ''name'' = None"
  by (simp add: index_of_def is_digit_def)

lemma for_in_skips: "(\<And>k s. body k s = Inr s) \<Longrightarrow> for_in ks body s = Inr s"
  by (induction ks) auto

lemma loose_eq_str_iff: "loose_eq_str v lit \<longleftrightarrow> v = Str lit"
  by (cases v) auto

lemma has_own_total: "\<not> nullish tag \<Longrightarrow> \<exists>b. has_own tag k = Inr b"
  by (cases tag) (auto simp: nullish_def)

lemma parse_links_tag_key: "parse_links_tag (Str k) this = Inr this"
  by (simp add: parse_links_tag_def bind_r_def index_of_name)

lemma parse_links_keys: "parse_links span this = Inr this"
  unfolding parse_links_def by (rule for_in_skips) (rule parse_links_tag_key)

lemma parse_article_tag_key: "parse_article_tag ad (Str k) this = Inr this"
  by (simp add: parse_article_tag_def bind_r_def index_of_name)

lemma parse_article_keys:
  "parse_article ad d this = Inr (this\<lparr>article := Some ScholarArticle\<rparr>)"
  unfolding parse_article_def by (rule for_in_skips) (rule parse_article_tag_key)

lemma parse_article_tag_120201_key: "parse_article_tag_120201 ad (Str k) this = Inr this"
  by (simp add: parse_article_tag_120201_def bind_r_def index_of_name)

lemma parse_article_120201_keys:
  "parse_article_120201 ad d this = Inr (this\<lparr>article := Some ScholarArticle\<rparr>)"
  unfolding parse_article_120201_def
  by (rule for_in_skips) (rule parse_article_tag_120201_key)

lemma clean_article_titled:
  "article this = Some a \<Longrightarrow> truthy (title a) \<Longrightarrow> clean_article this = Inl TypeError"
  by (simp add: clean_article_def bind_r_def not_a_function_def)

lemma parse_result_keys:
  "parse_result cls ad k this = Inr (this\<lparr>article := Some ScholarArticle\<rparr>)"
  by (cases cls)
     (simp_all add: parse_result_def parse_article_keys parse_article_120201_keys bind_r_def
        clean_article_def ScholarArticle_def)

lemma for_in_handled:
  assumes "\<And>k s s'. body k s = Inr s' \<Longrightarrow> handled_articles s' = handled_articles s"
  shows "for_in ks body s = Inr s' \<Longrightarrow> handled_articles s' = handled_articles s"
proof (induction ks arbitrary: s)
  case Nil
  then show ?case by simp
next
  case (Cons k ks)
  then show ?case
    by (auto split: sum.splits dest: assms)
qed

lemma parse_results_handles_nothing:
  assumes "parse_results cls ad this = Inr this'"
  shows "handled_articles this' = handled_articles this"
proof -
  from assms
  have "for_in (for_in_keys (soup_findAll ad (soup this) Undefined)) (parse_result cls ad) this
        = Inr this'"
    by (simp add: parse_results_def split: if_splits)
  then show ?thesis
    by (rule for_in_handled [rotated]) (simp add: parse_result_keys)
qed

lemma parse_globals_throws:
  "parse_globals ad this = Inl (if nullish (soup this) then TypeError else ReferenceError)"
  by (simp add: parse_globals_def bind_r_def unbound_def)

lemma parse_throws:
  "parse cls ad html this
   = Inl (if nullish (make_soup ad html) then TypeError else ReferenceError)"
  by (simp add: parse_def parse_globals_throws bind_r_def)

lemma as_integer_undefined: "as_integer obj = Undefined"
  by (simp add: as_integer_def unbound_def)

lemma static_through_this:
  "m \<in> set static_methods \<Longrightarrow> this_call m body = Inl TypeError"
  by (auto simp: static_methods_def this_call_def prototype_methods_def not_a_function_def)

section \<open>Link parsing\<close>

text \<open>
  C10. In the loop of \<^verbatim>\<open>_parse_links\<close>, a tag that is not an anchor, or an anchor whose
  \<^verbatim>\<open>href\<close> is missing, is skipped: the parser and its record come back unchanged and
  no exception is thrown.
\<close>

theorem parse_links_tag_skips:
  assumes "\<not> nullish tag"
    and "get_prop tag ''name'' \<noteq> Str ''a'' \<or> nullish (get_prop tag ''href'')"
  shows "parse_links_tag tag this = Inr this"
proof -
  from assms(1) obtain b where "has_own tag ''name'' = Inr b"
    using has_own_total by blast
  with assms(2) show ?thesis
    by (auto simp: parse_links_tag_def bind_r_def loose_ne_str_def loose_eq_str_iff)
qed

theorem parse_links_tag_skips_witness:
  "\<not> nullish (Obj [(''name'', Str ''span''), (''href'', Str ''/scholar?cites=1'')])
   \<and> get_prop (Obj [(''name'', Str ''span''), (''href'', Str ''/scholar?cites=1'')]) ''name''
       \<noteq> Str ''a''
   \<and> parse_links_tag (Obj [(''name'', Str ''span''), (''href'', Str ''/scholar?cites=1'')])
        sample_parser = Inr sample_parser
   \<and> \<not> nullish (Obj [(''name'', Str ''a'')])
   \<and> nullish (get_prop (Obj [(''name'', Str ''a'')]) ''href'')
   \<and> parse_links_tag (Obj [(''name'', Str ''a'')]) sample_parser = Inr sample_parser"
  using
    parse_links_tag_skips
      [of "Obj [(''name'', Str ''span''), (''href'', Str ''/scholar?cites=1'')]" sample_parser]
    parse_links_tag_skips [of "Obj [(''name'', Str ''a'')]" sample_parser]
  by (simp add: nullish_def)

text \<open>
  C2. For the footer that holds the anchor with href \<^verbatim>\<open>/scholar?cites=12345&num=20\<close> and
  text \<^verbatim>\<open>Cited by 42\<close>, \<^verbatim>\<open>_parse_links\<close> returns the parser as it was: num_citations
  and url_citations stay unset. Handed the anchor itself, the body of the loop throws
  TypeError, at the call of the static \<^verbatim>\<open>_as_integer\<close> through \<^verbatim>\<open>this\<close>.
\<close>

theorem cited_by_anchor_not_parsed:
  "parse_links links_div sample_parser = Inr sample_parser
   \<and> map_option num_citations (article sample_parser) = Some Undefined
   \<and> map_option url_citations (article sample_parser) = Some Undefined
   \<and> parse_links_tag cited_anchor sample_parser = Inl TypeError"
  by (simp add: parse_links_keys sample_parser_def ScholarArticle_def ScholarArticleParser_def
      parse_links_tag_def cited_anchor_def bind_r_def nullish_def startsWith_def loose_ne_str_def
      cites_branch_def this_call_def prototype_methods_def not_a_function_def)

text \<open>
  C5. For the footer that holds the anchor with href \<^verbatim>\<open>/scholar?cites=777\<close>,
  \<^verbatim>\<open>_parse_links\<close> returns the parser as it was: cluster_id stays empty. Handed the
  anchor itself, the body of the loop throws ReferenceError inside \<^verbatim>\<open>_strip_urlArg\<close>,
  before cluster_id is touched.
\<close>

theorem cluster_id_not_populated:
  "parse_links cites_div sample_parser = Inr sample_parser
   \<and> map_option cluster_id (article sample_parser) = Some []
   \<and> parse_links_tag cites_anchor sample_parser = Inl ReferenceError"
  by (simp add: parse_links_keys sample_parser_def ScholarArticle_def ScholarArticleParser_def
      parse_links_tag_def cites_anchor_def bind_r_def nullish_def startsWith_def loose_ne_str_def
      cites_branch_def strip_urlArg_def unbound_def)

section \<open>Container extraction\<close>

text \<open>
  C7. For the container that holds the byline
  \<^verbatim>\<open>J Smith, A Jones - Journal of X, 2019 - publisher.com\<close>, \<^verbatim>\<open>_parse_article\<close> of layout
  120201 leaves a fresh record: year is unset. Handed the byline itself, the body of the
  loop throws TypeError, and so does the scan of the year by itself; an instance of the
  layout cannot be constructed.
\<close>

theorem byline_year_not_set:
  "parse_article_120201 page_adapter container sample_parser = Inr sample_parser
   \<and> map_option article.year (article sample_parser) = Some Undefined
   \<and> parse_article_tag_120201 page_adapter byline_div sample_parser = Inl TypeError
   \<and> year_scan byline_div sample_parser = Inl TypeError
   \<and> ScholarArticleParser_120201 = Inl ReferenceError"
  by (simp add: parse_article_120201_keys sample_parser_def ScholarArticle_def
      ScholarArticleParser_def ScholarArticleParser_120201_def
      parse_article_tag_120201_def byline_div_def bind_r_def this_call_def
      prototype_methods_def not_a_function_def year_scan_def this_year_re_def nullish_def)

text \<open>
  C8. For the container whose title links to \<^verbatim>\<open>/paper.pdf\<close>, \<^verbatim>\<open>_parse_article\<close> leaves a
  fresh record in both layouts: url and url_pdf are unset. Handed the title tag itself,
  the body of the loop throws TypeError in both layouts, and the statements that set
  title and url throw ReferenceError by themselves.
\<close>

theorem title_url_not_set:
  "parse_article page_adapter container sample_parser = Inr sample_parser
   \<and> parse_article_120201 page_adapter container sample_parser = Inr sample_parser
   \<and> map_option url (article sample_parser) = Some Undefined
   \<and> map_option url_pdf (article sample_parser) = Some Undefined
   \<and> parse_article_tag page_adapter title_div sample_parser = Inl TypeError
   \<and> parse_article_tag_120201 page_adapter title_h3 sample_parser = Inl TypeError
   \<and> title_link page_adapter title_div sample_parser = Inl ReferenceError
   \<and> title_link_120201 page_adapter title_h3 sample_parser = Inl ReferenceError"
  by (simp add: parse_article_keys parse_article_120201_keys sample_parser_def
      ScholarArticle_def ScholarArticleParser_def parse_article_tag_def
      parse_article_tag_120201_def title_div_def title_h3_def bind_r_def this_call_def
      prototype_methods_def not_a_function_def title_link_def title_link_120201_def
      unbound_def)

section \<open>The page\<close>

text \<open>
  C6. For the page whose statistics node reads \<^verbatim>\<open>About 1,234 results (0.05 sec)\<close>,
  \<^verbatim>\<open>_parse_globals\<close> throws ReferenceError and \<^verbatim>\<open>parse\<close> passes it on to its caller.
  The block under \<^verbatim>\<open>try\<close>, run on that text, throws TypeError before the callback.
\<close>

theorem parse_globals_stats:
  "parse_globals page_adapter (sample_parser\<lparr>soup := page\<rparr>) = Inl ReferenceError
   \<and> parse Base page_adapter html sample_parser = Inl ReferenceError
   \<and> try_numResults ''About 1,234 results (0.05 sec)'' sample_parser = Inl TypeError"
  by (simp add: parse_throws parse_globals_throws page_adapter_def page_def nullish_def
      try_numResults_def split_noargs_def not_a_function_def)

text \<open>
  C1. For the page with one titled and one untitled container, \<^verbatim>\<open>parse\<close> throws
  ReferenceError before it visits a container. The loop by itself visits the property
  names of the list of containers: it invokes the callback for none and leaves a fresh
  record. Cleanup throws TypeError on a record that has a title.
\<close>

theorem parse_page:
  "parse Base page_adapter html (ScholarArticleParser None ''https://scholar.google.com'')
     = Inl ReferenceError
   \<and> parse_results Base page_adapter (sample_parser\<lparr>soup := page\<rparr>)
     = Inr (sample_parser\<lparr>soup := page\<rparr>)
   \<and> handled_articles (sample_parser\<lparr>soup := page\<rparr>) = []
   \<and> clean_article (sample_parser\<lparr>article := Some (ScholarArticle\<lparr>title := Str ''Big Data''\<rparr>)\<rparr>)
     = Inl TypeError"
  by (simp add: parse_throws parse_results_def page_adapter_def page_def nullish_def
      parse_result_keys sample_parser_def ScholarArticleParser_def clean_article_titled)

end
